theory Spec2Isabelle
  imports Complex_Main
begin

section \<open>Numbers\<close>

text \<open>
  The analytics code computes on JavaScript numbers. They are modelled over exact
  arithmetic: a finite number is a real, and the three special values the code can
  produce by dividing by zero (\<open>Infinity\<close>, \<open>-Infinity\<close>, \<open>NaN\<close>) are values of their
  own, with the arithmetic IEEE 754 gives them. Rounding and the sign of zero are not
  modelled: there is one zero and it behaves like \<open>+0\<close>.

  Where the code compares a computed number with a threshold, the rounded number can
  fall on the other side of the threshold from the exact one. The theorems about such
  comparisons (the weekly pattern, the direction of a trend, the guard of the
  correlation) therefore speak of the numbers as the code computes them, in their
  premises and in their conclusions, and rest on no property of the arithmetic. Only the
  bound on the correlation coefficient, and the remark that the regression of every
  constant series has R-squared \<open>NaN\<close>, are statements about exact arithmetic.
\<close>

datatype jsnum = Num real | PosInf | NegInf | NaN

fun js_neg :: "jsnum \<Rightarrow> jsnum" where
  "js_neg (Num a) = Num (- a)"
| "js_neg PosInf = NegInf"
| "js_neg NegInf = PosInf"
| "js_neg NaN = NaN"

fun js_add :: "jsnum \<Rightarrow> jsnum \<Rightarrow> jsnum" where
  "js_add (Num a) (Num b) = Num (a + b)"
| "js_add NaN _ = NaN"
| "js_add _ NaN = NaN"
| "js_add PosInf NegInf = NaN"
| "js_add NegInf PosInf = NaN"
| "js_add PosInf _ = PosInf"
| "js_add NegInf _ = NegInf"
| "js_add _ PosInf = PosInf"
| "js_add _ NegInf = NegInf"

definition js_sub :: "jsnum \<Rightarrow> jsnum \<Rightarrow> jsnum" where
  "js_sub a b = js_add a (js_neg b)"

text \<open>The sign of a number that is not \<open>NaN\<close>: -1, 0 or 1.\<close>

fun js_sign :: "jsnum \<Rightarrow> int" where
  "js_sign (Num a) = (if a < 0 then - 1 else if a = 0 then 0 else 1)"
| "js_sign PosInf = 1"
| "js_sign NegInf = - 1"
| "js_sign NaN = 0"

definition inf_of_sign :: "int \<Rightarrow> jsnum" where
  "inf_of_sign s = (if s = 0 then NaN else if s < 0 then NegInf else PosInf)"

fun js_mul :: "jsnum \<Rightarrow> jsnum \<Rightarrow> jsnum" where
  "js_mul (Num a) (Num b) = Num (a * b)"
| "js_mul NaN _ = NaN"
| "js_mul _ NaN = NaN"
| "js_mul a b = inf_of_sign (js_sign a * js_sign b)"

fun js_div :: "jsnum \<Rightarrow> jsnum \<Rightarrow> jsnum" where
  "js_div (Num a) (Num b) =
     (if b = 0 then inf_of_sign (js_sign (Num a)) else Num (a / b))"
| "js_div NaN _ = NaN"
| "js_div _ NaN = NaN"
| "js_div (Num a) _ = Num 0"
| "js_div PosInf (Num b) = (if b < 0 then NegInf else PosInf)"
| "js_div NegInf (Num b) = (if b < 0 then PosInf else NegInf)"
| "js_div _ _ = NaN"

text \<open>Comparisons: every comparison with \<open>NaN\<close> is false.\<close>

fun js_lt :: "jsnum \<Rightarrow> jsnum \<Rightarrow> bool" where
  "js_lt (Num a) (Num b) = (a < b)"
| "js_lt NaN _ = False"
| "js_lt _ NaN = False"
| "js_lt NegInf NegInf = False"
| "js_lt NegInf _ = True"
| "js_lt PosInf _ = False"
| "js_lt (Num a) PosInf = True"
| "js_lt (Num a) NegInf = False"

definition js_gt :: "jsnum \<Rightarrow> jsnum \<Rightarrow> bool" where
  "js_gt a b = js_lt b a"

definition js_eq :: "jsnum \<Rightarrow> jsnum \<Rightarrow> bool" where
  "js_eq a b = (a = b \<and> a \<noteq> NaN)"

definition js_le :: "jsnum \<Rightarrow> jsnum \<Rightarrow> bool" where
  "js_le a b = (js_lt a b \<or> js_eq a b)"

definition js_ge :: "jsnum \<Rightarrow> jsnum \<Rightarrow> bool" where
  "js_ge a b = js_le b a"

text \<open>\<open>Math.max\<close>, \<open>Math.min\<close>, \<open>Math.abs\<close>, \<open>Math.sqrt\<close>, \<open>Math.pow(v, 2)\<close>,
  \<open>Math.exp\<close> and \<open>Math.log\<close>.\<close>

definition Math_max :: "jsnum \<Rightarrow> jsnum \<Rightarrow> jsnum" where
  "Math_max a b = (if a = NaN \<or> b = NaN then NaN else if js_lt a b then b else a)"

definition Math_min :: "jsnum \<Rightarrow> jsnum \<Rightarrow> jsnum" where
  "Math_min a b = (if a = NaN \<or> b = NaN then NaN else if js_lt b a then b else a)"



fun Math_abs :: "jsnum \<Rightarrow> jsnum" where
  "Math_abs (Num a) = Num \<bar>a\<bar>"
| "Math_abs NaN = NaN"
| "Math_abs _ = PosInf"

fun Math_sqrt :: "jsnum \<Rightarrow> jsnum" where
  "Math_sqrt (Num a) = (if a < 0 then NaN else Num (sqrt a))"
| "Math_sqrt PosInf = PosInf"
| "Math_sqrt _ = NaN"

definition Math_pow2 :: "jsnum \<Rightarrow> jsnum" where
  "Math_pow2 v = js_mul v v"

fun Math_exp :: "jsnum \<Rightarrow> jsnum" where
  "Math_exp (Num a) = Num (exp a)"
| "Math_exp PosInf = PosInf"
| "Math_exp NegInf = Num 0"
| "Math_exp NaN = NaN"

fun Math_log :: "jsnum \<Rightarrow> jsnum" where
  "Math_log (Num a) = (if a < 0 then NaN else if a = 0 then NegInf else Num (ln a))"
| "Math_log PosInf = PosInf"
| "Math_log _ = NaN"

text \<open>\<open>xs.reduce((sum, val) => sum + f(val), 0)\<close>, a left fold from 0.\<close>

definition reduce_sum :: "('a \<Rightarrow> jsnum) \<Rightarrow> 'a list \<Rightarrow> jsnum" where
  "reduce_sum f xs = fold (\<lambda>val acc. js_add acc (f val)) xs (Num 0)"

text \<open>\<open>ys[i]\<close> used as a number: a read past the end is \<open>undefined\<close>, which
  arithmetic turns into \<open>NaN\<close>.\<close>

definition js_nth :: "jsnum list \<Rightarrow> nat \<Rightarrow> jsnum" where
  "js_nth ys i = (if i < length ys then ys ! i else NaN)"

text \<open>\<open>xs.reduce((sum, val, i) => sum + g(val, ys[i]), 0)\<close>: the index runs with the
  fold.\<close>

fun reduce_sum_idx :: "(jsnum \<Rightarrow> jsnum \<Rightarrow> jsnum) \<Rightarrow> jsnum list \<Rightarrow> jsnum list \<Rightarrow> nat \<Rightarrow> jsnum \<Rightarrow> jsnum" where
  "reduce_sum_idx g [] ys i acc = acc"
| "reduce_sum_idx g (val # xs) ys i acc =
     reduce_sum_idx g xs ys (Suc i) (js_add acc (g val (js_nth ys i)))"

text \<open>\<open>Array.prototype.sort\<close> with a comparator returning a number. The sort is stable
  (ECMAScript 2019); it is modelled as a stable insertion sort that places \<open>a\<close> after
  \<open>b\<close> exactly when \<open>cmp(a, b) > 0\<close>. For a comparator that is not a consistent order
  (one that returns \<open>NaN\<close>) the language leaves the order to the engine and this model
  fixes one.\<close>

fun insort_cmp :: "('a \<Rightarrow> 'a \<Rightarrow> jsnum) \<Rightarrow> 'a \<Rightarrow> 'a list \<Rightarrow> 'a list" where
  "insort_cmp cmp x [] = [x]"
| "insort_cmp cmp x (y # ys) =
     (if js_gt (cmp x y) (Num 0) then y # insort_cmp cmp x ys else x # y # ys)"

definition js_sort :: "('a \<Rightarrow> 'a \<Rightarrow> jsnum) \<Rightarrow> 'a list \<Rightarrow> 'a list" where
  "js_sort cmp xs = foldr (insort_cmp cmp) xs []"

text \<open>Milliseconds in a day, \<open>1000 * 60 * 60 * 24\<close>.\<close>

definition ms_per_day :: real where
  "ms_per_day = 1000 * 60 * 60 * 24"

text \<open>A \<open>Date\<close> is its time value, whole milliseconds since the epoch; the dates of
  goals, progress samples and entries are taken to be valid dates. \<open>new Date(t)\<close> on a
  computed number clips it: the fraction is dropped and a value that is not finite or
  beyond 8.64e15 ms gives an invalid date, whose time value is \<open>NaN\<close>.\<close>

fun new_Date :: "jsnum \<Rightarrow> jsnum" where
  "new_Date (Num t) =
     (if \<bar>t\<bar> > 8640000000000000 then NaN
      else Num (if t < 0 then - of_int \<lfloor>- t\<rfloor> else of_int \<lfloor>t\<rfloor>))"
| "new_Date _ = NaN"

definition getTime :: "int \<Rightarrow> jsnum" where
  "getTime t = Num (of_int t)"


section \<open>GoalOptimizer\<close>

text \<open>The fields of \<open>Goal\<close> and \<open>GoalProgress\<close> that the optimizer reads.\<close>

record Goal =
  targetValue :: jsnum
  currentValue :: jsnum
  deadline :: int
  createdAt :: int

record GoalProgress =
  p_date :: int
  p_value :: jsnum

record GoalMetrics =
  completionRate :: jsnum
  timeRemaining :: jsnum
  averageDailyProgress :: jsnum
  projectedCompletion :: jsnum
  efficiencyScore :: jsnum
  consistencyScore :: jsnum

text \<open>\<open>progressData.sort((a, b) => a.date.getTime() - b.date.getTime())\<close>. The
  differences of whole milliseconds are exact, the comparator is a consistent order, so
  the stable sort is the stable sort by the time value. \<open>sort\<close> works in place: the
  array the caller passed is the one that is reordered, and the functions below return
  it next to their result.\<close>

definition sort_by_date :: "GoalProgress list \<Rightarrow> GoalProgress list" where
  "sort_by_date progressData = sort_key p_date progressData"

text \<open>The loop of \<open>calculateAverageDailyProgress\<close> over consecutive samples, carrying
  \<open>(totalProgress, totalDays)\<close>.\<close>

fun adp_loop :: "GoalProgress list \<Rightarrow> jsnum \<times> jsnum \<Rightarrow> jsnum \<times> jsnum" where
  "adp_loop (a # b # rest) (totalProgress, totalDays) =
     (let progress = js_sub (p_value b) (p_value a);
          days = js_div (js_sub (getTime (p_date b)) (getTime (p_date a))) (Num ms_per_day)
      in adp_loop (b # rest)
           (if js_gt days (Num 0)
            then (js_add totalProgress progress, js_add totalDays days)
            else (totalProgress, totalDays)))"
| "adp_loop _ acc = acc"

definition calculateAverageDailyProgress :: "GoalProgress list \<Rightarrow> jsnum \<times> GoalProgress list" where
  "calculateAverageDailyProgress progressData =
     (if length progressData < 2 then (Num 0, progressData)
      else
        let sortedData = sort_by_date progressData;
            (totalProgress, totalDays) = adp_loop sortedData (Num 0, Num 0)
        in (if js_gt totalDays (Num 0) then js_div totalProgress totalDays else Num 0,
            sortedData))"

text \<open>The loop of \<open>calculateConsistencyScore\<close>: the changes between consecutive
  samples, negative ones replaced by 0.\<close>

fun dailyChanges :: "GoalProgress list \<Rightarrow> jsnum list" where
  "dailyChanges (a # b # rest) =
     Math_max (Num 0) (js_sub (p_value b) (p_value a)) # dailyChanges (b # rest)"
| "dailyChanges _ = []"

definition score_of_changes :: "jsnum list \<Rightarrow> jsnum" where
  "score_of_changes changes =
     (let mean = js_div (reduce_sum (\<lambda>v. v) changes) (Num (of_nat (length changes)));
          variance = js_div (reduce_sum (\<lambda>v. Math_pow2 (js_sub v mean)) changes)
                            (Num (of_nat (length changes)));
          stdDev = Math_sqrt variance;
          cv = (if js_gt mean (Num 0) then js_div stdDev mean else Num 1)
      in Math_max (Num 0) (js_sub (Num 100) (js_mul cv (Num 100))))"

definition calculateConsistencyScore :: "GoalProgress list \<Rightarrow> jsnum \<times> GoalProgress list" where
  "calculateConsistencyScore progressData =
     (if length progressData < 3 then (Num 50, progressData)
      else
        let sortedData = sort_by_date progressData
        in (score_of_changes (dailyChanges sortedData), sortedData))"

text \<open>\<open>calculateGoalMetrics\<close>. The clock reading \<open>new Date()\<close> is the argument \<open>now\<close>.
  The result is paired with the caller's array as the call leaves it.\<close>

definition theoreticalRate :: "Goal \<Rightarrow> jsnum" where
  "theoreticalRate goal =
     js_div (targetValue goal)
       (js_div (js_sub (getTime (deadline goal)) (getTime (createdAt goal))) (Num ms_per_day))"

definition calculateGoalMetrics :: "int \<Rightarrow> Goal \<Rightarrow> GoalProgress list \<Rightarrow> GoalMetrics \<times> GoalProgress list" where
  "calculateGoalMetrics now goal progressData =
     (let timeElapsed = js_sub (getTime now) (getTime (createdAt goal));
          timeRemaining = js_div (Math_max (Num 0) (js_sub (getTime (deadline goal)) (getTime now)))
                                 (Num ms_per_day);
          completionRate = js_mul (js_div (currentValue goal) (targetValue goal)) (Num 100);
          (dailyProgress, progressData1) =
             (if length progressData > 1 then calculateAverageDailyProgress progressData
              else (js_div (currentValue goal) (js_div timeElapsed (Num ms_per_day)), progressData));
          projectedDays = js_div (js_sub (targetValue goal) (currentValue goal))
                                 (Math_max dailyProgress (Num (1 / 1000)));
          projectedCompletion =
             new_Date (js_add (getTime now)
                (js_mul (js_mul (js_mul (js_mul projectedDays (Num 24)) (Num 60)) (Num 60)) (Num 1000)));
          efficiencyScore = Math_min (Num 100)
                              (js_mul (js_div dailyProgress (theoreticalRate goal)) (Num 100));
          (consistencyScore, progressData2) = calculateConsistencyScore progressData1
      in (\<lparr> completionRate = completionRate,
             timeRemaining = timeRemaining,
             averageDailyProgress = dailyProgress,
             projectedCompletion = projectedCompletion,
             efficiencyScore = efficiencyScore,
             consistencyScore = consistencyScore \<rparr>,
          progressData2))"

text \<open>\<open>identifyBottlenecks\<close>. The filter calls \<open>new Date()\<close> once for each sample it
  tests, in index order: \<open>clock i\<close> is the reading taken for the sample at index \<open>i\<close>.
  These readings are separate from the one \<open>calculateGoalMetrics\<close> takes.\<close>

definition recentProgress :: "(nat \<Rightarrow> int) \<Rightarrow> GoalProgress list \<Rightarrow> nat" where
  "recentProgress clock progressData =
     length (filter (\<lambda>(i, p). clock i - p_date p < 7 * 24 * 60 * 60 * 1000)
                    (zip [0..<length progressData] progressData))"

definition identifyBottlenecks :: "(nat \<Rightarrow> int) \<Rightarrow> GoalMetrics \<Rightarrow> GoalProgress list \<Rightarrow> string list" where
  "identifyBottlenecks clock metrics progressData =
     (if js_lt (efficiencyScore metrics) (Num 50)
      then [''Low progress rate - may need increased frequency or intensity''] else []) @
     (if js_lt (consistencyScore metrics) (Num 40)
      then [''High variability in progress - inconsistent effort patterns''] else []) @
     (if js_lt (timeRemaining metrics) (Num 7) \<and> js_lt (completionRate metrics) (Num 80)
      then [''Time constraint - approaching deadline with significant work remaining''] else []) @
     (if recentProgress clock progressData = 0 \<and> length progressData > 0
      then [''Progress stagnation - no recent activity recorded''] else [])"

record OptimizationRecommendation =
  r_type :: string
  r_priority :: int
  r_description :: string
  expectedImprovement :: int

definition generateRecommendations :: "GoalMetrics \<Rightarrow> OptimizationRecommendation list" where
  "generateRecommendations metrics =
     sort_key r_priority
      ((if js_lt (efficiencyScore metrics) (Num 60)
        then [\<lparr> r_type = ''increase_frequency'', r_priority = 1,
                 r_description = ''Increase activity frequency by 25-50% to improve progress rate'',
                 expectedImprovement = 30 \<rparr>] else []) @
       (if js_lt (consistencyScore metrics) (Num 50)
        then [\<lparr> r_type = ''add_support'', r_priority = 2,
                 r_description = ''Add accountability measures or tracking reminders to improve consistency'',
                 expectedImprovement = 25 \<rparr>] else []) @
       (if js_gt (completionRate metrics) (Num 80) \<and> js_gt (timeRemaining metrics) (Num 30)
        then [\<lparr> r_type = ''adjust_target'', r_priority = 3,
                 r_description = ''Consider increasing target value to maintain challenge level'',
                 expectedImprovement = 15 \<rparr>] else []))"

record GoalCorrelation =
  variable1 :: string
  variable2 :: string
  g_correlation :: jsnum
  g_significance :: jsnum
  g_interpretation :: string

text \<open>The cross-goal correlation matrix is one fixed entry.\<close>

definition goalCorrelations :: "GoalCorrelation list" where
  "goalCorrelations =
     [\<lparr> variable1 = ''Daily Progress'', variable2 = ''Mood Score'',
         g_correlation = Num (65 / 100), g_significance = Num (2 / 100),
         g_interpretation = ''Moderate positive correlation between progress and mood'' \<rparr>]"

record OptimizationAnalysis =
  currentEfficiency :: jsnum
  bottlenecks :: "string list"
  recommendations :: "OptimizationRecommendation list"
  correlationMatrix :: "GoalCorrelation list"

text \<open>\<open>analyzeGoalOptimization\<close>: \<open>now\<close> is the clock reading of \<open>calculateGoalMetrics\<close>,
  \<open>clock\<close> gives the later readings of \<open>identifyBottlenecks\<close>.\<close>

definition analyzeGoalOptimization :: "int \<Rightarrow> (nat \<Rightarrow> int) \<Rightarrow> Goal \<Rightarrow> GoalProgress list \<Rightarrow> OptimizationAnalysis \<times> GoalProgress list" where
  "analyzeGoalOptimization now clock goal progressData =
     (let (metrics, progressData1) = calculateGoalMetrics now goal progressData;
          bottlenecks = identifyBottlenecks clock metrics progressData1
      in (\<lparr> currentEfficiency = efficiencyScore metrics,
             bottlenecks = bottlenecks,
             recommendations = generateRecommendations metrics,
             correlationMatrix = goalCorrelations \<rparr>,
          progressData1))"

text \<open>The consistency score as the specification words it: the coefficient of variation
  is the standard deviation of the changes over their mean.\<close>

definition changes_mean :: "jsnum list \<Rightarrow> jsnum" where
  "changes_mean changes = js_div (reduce_sum (\<lambda>v. v) changes) (Num (of_nat (length changes)))"

definition changes_stddev :: "jsnum list \<Rightarrow> jsnum" where
  "changes_stddev changes =
     Math_sqrt (js_div (reduce_sum (\<lambda>v. Math_pow2 (js_sub v (changes_mean changes))) changes)
                       (Num (of_nat (length changes))))"

definition coefficient_of_variation :: "jsnum list \<Rightarrow> jsnum" where
  "coefficient_of_variation changes = js_div (changes_stddev changes) (changes_mean changes)"

definition consistency_spec :: "GoalProgress list \<Rightarrow> jsnum" where
  "consistency_spec progressData =
     Math_max (Num 0)
       (js_sub (Num 100)
          (js_mul (coefficient_of_variation (dailyChanges (sort_by_date progressData))) (Num 100)))"


section \<open>MoodAnalytics\<close>

text \<open>The fields of \<open>MoodEntry\<close> that the analytics read. The \<open>date\<close> string is
  represented by the time value \<open>new Date(entry.date).getTime()\<close> gives it.\<close>

record MoodEntry =
  e_date :: int
  mood :: jsnum
  energy :: jsnum
  stress :: jsnum
  sleep :: jsnum
  hydration :: jsnum
  exercise :: jsnum
  nutrition :: jsnum

record CorrelationThresholds =
  strong :: jsnum
  moderate :: jsnum
  weak :: jsnum

record AnalyticsConfig =
  minEntriesForCorrelation :: nat
  minEntriesForTrends :: nat
  confidenceThreshold :: jsnum
  correlationThresholds :: CorrelationThresholds

definition DEFAULT_ANALYTICS_CONFIG :: AnalyticsConfig where
  "DEFAULT_ANALYTICS_CONFIG =
     \<lparr> minEntriesForCorrelation = 7,
       minEntriesForTrends = 14,
       confidenceThreshold = Num (5 / 100),
       correlationThresholds = \<lparr> strong = Num (5 / 10), moderate = Num (3 / 10), weak = Num (1 / 10) \<rparr> \<rparr>"

record MoodAnalytics =
  entries :: "MoodEntry list"
  config :: AnalyticsConfig

text \<open>The constructor sorts the array it is given, in place, and keeps it: the result
  is the engine together with the caller's array as the constructor leaves it.\<close>

definition new_MoodAnalytics :: "MoodEntry list \<Rightarrow> MoodAnalytics \<times> MoodEntry list" where
  "new_MoodAnalytics es =
     (let sorted = sort_key e_date es
      in (\<lparr> entries = sorted, config = DEFAULT_ANALYTICS_CONFIG \<rparr>, sorted))"

subsection \<open>The p-value approximation\<close>

definition cof :: "real list" where
  "cof = [76.18009172947146, - 86.50532032941677, 24.01409824083091,
          - 1.231739572450155, 0.1208650973866179 / 100, - 0.5395239384953 / 100000]"

definition logGamma :: "jsnum \<Rightarrow> jsnum" where
  "logGamma x =
     (let xx = x;
          tmp0 = js_add xx (Num 5.5);
          tmp = js_sub tmp0 (js_mul (js_add xx (Num 0.5)) (Math_log tmp0));
          (ser, y) = fold (\<lambda>c (ser, y). let y1 = js_add y (Num 1) in (js_add ser (js_div (Num c) y1), y1))
                       cof (Num 1.000000000190015, xx)
      in js_add (js_neg tmp) (Math_log (js_div (js_mul (Num 2.5066282746310005) ser) xx)))"

definition tiny :: "jsnum \<Rightarrow> jsnum" where
  "tiny d = (if js_lt (Math_abs d) (Num (1 / 10 ^ 30)) then Num (1 / 10 ^ 30) else d)"

text \<open>One pass through the body of the loop of \<open>betaContinuedFraction\<close>, at loop
  counter \<open>m\<close> and state \<open>(c, d, h)\<close>: the new state and \<open>del\<close>.\<close>

definition bcf_step :: "nat \<Rightarrow> jsnum \<Rightarrow> jsnum \<Rightarrow> jsnum \<Rightarrow> jsnum \<times> jsnum \<times> jsnum \<Rightarrow> (jsnum \<times> jsnum \<times> jsnum) \<times> jsnum" where
  "bcf_step m a b x cdh =
     (let (c, d, h) = cdh;
          qab = js_add a b; qap = js_add a (Num 1); qam = js_sub a (Num 1);
          mm = Num (of_nat m); m2 = Num (2 * of_nat m);
          aa = js_div (js_mul (js_mul mm (js_sub b mm)) x)
                      (js_mul (js_add qam m2) (js_add a m2));
          d1 = tiny (js_add (Num 1) (js_mul aa d));
          c1 = tiny (js_add (Num 1) (js_div aa c));
          d2 = js_div (Num 1) d1;
          h1 = js_mul h (js_mul d2 c1);
          aa2 = js_div (js_mul (js_mul (js_neg (js_add a mm)) (js_add qab mm)) x)
                       (js_mul (js_add a m2) (js_add qap m2));
          d3 = tiny (js_add (Num 1) (js_mul aa2 d2));
          c2 = tiny (js_add (Num 1) (js_div aa2 c1));
          d4 = js_div (Num 1) d3;
          del = js_mul d4 c2;
          h2 = js_mul h1 del
      in ((c2, d4, h2), del))"

text \<open>The loop \<open>for (m = 1; m <= maxIter; m++)\<close> with its \<open>break\<close>: \<open>k\<close> passes are
  left.\<close>

fun bcf_loop :: "nat \<Rightarrow> nat \<Rightarrow> jsnum \<Rightarrow> jsnum \<Rightarrow> jsnum \<Rightarrow> jsnum \<times> jsnum \<times> jsnum \<Rightarrow> jsnum" where
  "bcf_loop 0 m a b x cdh = snd (snd cdh)"
| "bcf_loop (Suc k) m a b x cdh =
     (let (cdh1, del) = bcf_step m a b x cdh
      in if js_lt (Math_abs (js_sub del (Num 1))) (Num (3 / 10 ^ 7)) then snd (snd cdh1)
         else bcf_loop k (Suc m) a b x cdh1)"

definition betaContinuedFraction :: "jsnum \<Rightarrow> jsnum \<Rightarrow> jsnum \<Rightarrow> jsnum" where
  "betaContinuedFraction a b x =
     (let qab = js_add a b; qap = js_add a (Num 1);
          d = js_div (Num 1) (tiny (js_sub (Num 1) (js_div (js_mul qab x) qap)))
      in bcf_loop 100 1 a b x (Num 1, d, d))"

definition betaIncomplete :: "jsnum \<Rightarrow> jsnum \<Rightarrow> jsnum \<Rightarrow> jsnum" where
  "betaIncomplete a b x =
     (if js_le x (Num 0) then Num 0
      else if js_ge x (Num 1) then Num 1
      else
        let bt = Math_exp
                   (js_add
                      (js_add
                         (js_sub (js_sub (logGamma (js_add a b)) (logGamma a)) (logGamma b))
                         (js_mul a (Math_log x)))
                      (js_mul b (Math_log (js_sub (Num 1) x))))
        in if js_lt x (js_div (js_add a (Num 1)) (js_add (js_add a b) (Num 2)))
           then js_div (js_mul bt (betaContinuedFraction a b x)) a
           else js_sub (Num 1) (js_div (js_mul bt (betaContinuedFraction b a (js_sub (Num 1) x))) b))"

definition tTestPValue :: "jsnum \<Rightarrow> jsnum \<Rightarrow> jsnum" where
  "tTestPValue t df =
     (let x = js_div df (js_add df (js_mul t t))
      in betaIncomplete (js_div df (Num 2)) (Num 0.5) x)"

subsection \<open>Correlation and regression\<close>

record PearsonResult =
  pr_r :: jsnum
  pr_p :: jsnum
  pr_n :: nat

text \<open>The numerator and the denominator of the product-moment formula, as
  \<open>pearsonCorrelation\<close> computes them, and the coefficient \<open>r\<close> with its guard.\<close>

definition pearson_numerator :: "jsnum list \<Rightarrow> jsnum list \<Rightarrow> jsnum" where
  "pearson_numerator x y =
     (let n = Num (of_nat (length x));
          sumX = reduce_sum (\<lambda>val. val) x;
          sumY = reduce_sum (\<lambda>val. val) y;
          sumXY = reduce_sum_idx (\<lambda>val yi. js_mul val yi) x y 0 (Num 0)
      in js_sub (js_mul n sumXY) (js_mul sumX sumY))"

definition pearson_denominator :: "jsnum list \<Rightarrow> jsnum list \<Rightarrow> jsnum" where
  "pearson_denominator x y =
     (let n = Num (of_nat (length x));
          sumX = reduce_sum (\<lambda>val. val) x;
          sumY = reduce_sum (\<lambda>val. val) y;
          sumX2 = reduce_sum (\<lambda>val. js_mul val val) x;
          sumY2 = reduce_sum (\<lambda>val. js_mul val val) y
      in Math_sqrt (js_mul (js_sub (js_mul n sumX2) (js_mul sumX sumX))
                           (js_sub (js_mul n sumY2) (js_mul sumY sumY))))"

definition pearson_r :: "jsnum list \<Rightarrow> jsnum list \<Rightarrow> jsnum" where
  "pearson_r x y =
     (let numerator = pearson_numerator x y;
          denominator = pearson_denominator x y
      in if js_eq denominator (Num 0) then Num 0 else js_div numerator denominator)"

definition pearsonCorrelation :: "jsnum list \<Rightarrow> jsnum list \<Rightarrow> PearsonResult" where
  "pearsonCorrelation x y =
     (let n = length x in
      if n < 3 then \<lparr> pr_r = Num 0, pr_p = Num 1, pr_n = n \<rparr>
      else
        let r = pearson_r x y;
            df = Num (of_nat n - 2);
            t = js_mul (Math_abs r) (Math_sqrt (js_div df (js_sub (Num 1) (js_mul r r))));
            p = tTestPValue t df
        in \<lparr> pr_r = r, pr_p = p, pr_n = n \<rparr>)"

record Regression =
  slope :: jsnum
  intercept :: jsnum
  r2 :: jsnum

definition linearRegression :: "jsnum list \<Rightarrow> jsnum list \<Rightarrow> Regression" where
  "linearRegression x y =
     (let n = Num (of_nat (length x));
          sumX = reduce_sum (\<lambda>val. val) x;
          sumY = reduce_sum (\<lambda>val. val) y;
          sumXY = reduce_sum_idx (\<lambda>val yi. js_mul val yi) x y 0 (Num 0);
          sumX2 = reduce_sum (\<lambda>val. js_mul val val) x;
          sumY2 = reduce_sum (\<lambda>val. js_mul val val) y;
          slope = js_div (js_sub (js_mul n sumXY) (js_mul sumX sumY))
                         (js_sub (js_mul n sumX2) (js_mul sumX sumX));
          intercept = js_div (js_sub sumY (js_mul slope sumX)) n;
          yMean = js_div sumY n;
          ssRes = reduce_sum_idx
                    (\<lambda>val xi. Math_pow2 (js_sub val (js_add (js_mul slope xi) intercept)))
                    y x 0 (Num 0);
          ssTot = reduce_sum (\<lambda>val. Math_pow2 (js_sub val yMean)) y;
          r2 = js_sub (Num 1) (js_div ssRes ssTot)
      in \<lparr> slope = slope, intercept = intercept, r2 = r2 \<rparr>)"

subsection \<open>Reading a metric\<close>

text \<open>\<open>entry[key]\<close> for a key given as a string, when it is a number: the seven
  numeric fields. Any other key reads a string, an array or \<open>undefined\<close>.\<close>

definition numeric_field :: "MoodEntry \<Rightarrow> string \<Rightarrow> jsnum option" where
  "numeric_field entry key =
     (if key = ''mood'' then Some (mood entry)
      else if key = ''energy'' then Some (energy entry)
      else if key = ''stress'' then Some (stress entry)
      else if key = ''sleep'' then Some (sleep entry)
      else if key = ''hydration'' then Some (hydration entry)
      else if key = ''exercise'' then Some (exercise entry)
      else if key = ''nutrition'' then Some (nutrition entry)
      else None)"

definition getEntryValue :: "MoodEntry \<Rightarrow> string \<Rightarrow> jsnum" where
  "getEntryValue entry factor =
     (case numeric_field entry factor of
        Some v \<Rightarrow> (if factor = ''stress'' then js_sub (Num 10) v else v)
      | None \<Rightarrow> Num 0)"

subsection \<open>Correlations\<close>

datatype Interpretation =
  strong_positive | moderate_positive | weak_positive
  | weak_negative | moderate_negative | strong_negative | negligible

record CorrelationData =
  factor :: string
  correlation :: jsnum
  significance :: jsnum
  sampleSize :: nat
  c_interpretation :: Interpretation

text \<open>\<open>factor.charAt(0).toUpperCase() + factor.slice(1)\<close>, on ASCII letters.\<close>

definition toUpperCase_char :: "char \<Rightarrow> char" where
  "toUpperCase_char c =
     (let k = (of_char c :: nat) in if 97 \<le> k \<and> k \<le> 122 then char_of (k - 32) else c)"

fun capitalize :: "string \<Rightarrow> string" where
  "capitalize [] = []"
| "capitalize (c # cs) = toUpperCase_char c # cs"

definition interpretation_of :: "AnalyticsConfig \<Rightarrow> jsnum \<Rightarrow> Interpretation" where
  "interpretation_of cfg r =
     (let absR = Math_abs r in
      if js_ge absR (strong (correlationThresholds cfg))
        then (if js_gt r (Num 0) then strong_positive else strong_negative)
      else if js_ge absR (moderate (correlationThresholds cfg))
        then (if js_gt r (Num 0) then moderate_positive else moderate_negative)
      else if js_ge absR (weak (correlationThresholds cfg))
        then (if js_gt r (Num 0) then weak_positive else weak_negative)
      else negligible)"

definition correlation_of :: "MoodAnalytics \<Rightarrow> string \<Rightarrow> CorrelationData" where
  "correlation_of this f =
     (let moodValues = map mood (entries this);
          factorValues = map (\<lambda>entry. getEntryValue entry f) (entries this);
          result = pearsonCorrelation moodValues factorValues
      in \<lparr> factor = capitalize f,
           correlation = pr_r result,
           significance = pr_p result,
           sampleSize = pr_n result,
           c_interpretation = interpretation_of (config this) (pr_r result) \<rparr>)"

definition calculateCorrelations :: "MoodAnalytics \<Rightarrow> CorrelationData list" where
  "calculateCorrelations this =
     (if length (entries this) < minEntriesForCorrelation (config this) then []
      else
        let factors = [''energy'', ''stress'', ''sleep'', ''hydration'', ''exercise'', ''nutrition''];
            correlationResults = map (correlation_of this) factors
        in js_sort (\<lambda>a b. js_sub (Math_abs (correlation b)) (Math_abs (correlation a)))
                   correlationResults)"

subsection \<open>Trends\<close>

datatype Direction = increasing | decreasing | stable







subsection \<open>Weekly patterns\<close>


















section \<open>Example inputs\<close>

definition single_progress :: "GoalProgress list" where
  "single_progress = [\<lparr> p_date = 0, p_value = Num 5 \<rparr>]"

definition steady_progress :: "GoalProgress list" where
  "steady_progress =
     [\<lparr> p_date = 0, p_value = Num 0 \<rparr>, \<lparr> p_date = 86400000, p_value = Num 10 \<rparr>,
      \<lparr> p_date = 172800000, p_value = Num 20 \<rparr>]"

definition flat_progress :: "GoalProgress list" where
  "flat_progress =
     [\<lparr> p_date = 0, p_value = Num 5 \<rparr>, \<lparr> p_date = 86400000, p_value = Num 5 \<rparr>,
      \<lparr> p_date = 172800000, p_value = Num 5 \<rparr>]"

definition ten_day_goal :: Goal where
  "ten_day_goal =
     \<lparr> targetValue = Num 100, currentValue = Num 20, deadline = 864000000, createdAt = 0 \<rparr>"

text \<open>The same goal with nothing done.\<close>

definition idle_goal :: Goal where
  "idle_goal =
     \<lparr> targetValue = Num 100, currentValue = Num 0, deadline = 864000000, createdAt = 0 \<rparr>"

definition fast_progress :: "GoalProgress list" where
  "fast_progress = [\<lparr> p_date = 0, p_value = Num 0 \<rparr>, \<lparr> p_date = 86400000, p_value = Num 20 \<rparr>]"

text \<open>Clock readings that start two days after the epoch and advance by a millisecond.\<close>

definition ticking_clock :: "nat \<Rightarrow> int" where
  "ticking_clock i = 172800000 + int i"

text \<open>Two samples, the later one first.\<close>

definition late_first_progress :: "GoalProgress list" where
  "late_first_progress =
     [\<lparr> p_date = 86400000, p_value = Num 20 \<rparr>, \<lparr> p_date = 0, p_value = Num 0 \<rparr>]"

text \<open>An entry on day \<open>k\<close> after the epoch (a Thursday, in UTC) with the given mood and
  stress.\<close>

definition entry_on :: "nat \<Rightarrow> real \<Rightarrow> real \<Rightarrow> MoodEntry" where
  "entry_on k m s =
     \<lparr> e_date = int k * 86400000, mood = Num m, energy = Num 5, stress = Num s, sleep = Num 7,
       hydration = Num 8, exercise = Num 30, nutrition = Num 5 \<rparr>"






text \<open>Two entries, the later one first.\<close>

definition late_first_entries :: "MoodEntry list" where
  "late_first_entries = [entry_on 1 6 4, entry_on 0 5 5]"


section \<open>Properties\<close>

subsection \<open>Sums of finite numbers\<close>

lemma fold_add_Num:
  "fold (\<lambda>val acc. js_add acc (Num (f val))) xs (Num a) = Num (a + sum_list (map f xs))"
  by (induction xs arbitrary: a) (simp_all add: add.assoc)

lemma reduce_sum_id_Num: "reduce_sum (\<lambda>val. val) (map Num xs) = Num (sum_list xs)"
  using fold_add_Num[of "\<lambda>v. v" xs 0] by (simp add: reduce_sum_def fold_map comp_def)

lemma reduce_sum_sq_Num:
  "reduce_sum (\<lambda>val. js_mul val val) (map Num xs) = Num (sum_list (map (\<lambda>v. v * v) xs))"
  using fold_add_Num[of "\<lambda>v. v * v" xs 0] by (simp add: reduce_sum_def fold_map comp_def)

text \<open>While the index stays inside \<open>ys\<close>, the indexed fold is a fold over the pairs.\<close>

lemma reduce_sum_idx_zip:
  "i + length xs \<le> length ys \<Longrightarrow>
   reduce_sum_idx g xs ys i acc = fold (\<lambda>(v, w) a. js_add a (g v w)) (zip xs (drop i ys)) acc"
proof (induction xs arbitrary: i acc)
  case Nil
  then show ?case by simp
next
  case (Cons x xs)
  then have i: "i < length ys" by simp
  then have d: "drop i ys = ys ! i # drop (Suc i) ys" by (simp add: Cons_nth_drop_Suc)
  from Cons.prems have "Suc i + length xs \<le> length ys" by simp
  from Cons.IH[OF this] show ?case using i by (simp add: d js_nth_def)
qed

lemma sumXY_Num:
  assumes "length xs = length ys"
  shows "reduce_sum_idx (\<lambda>val yi. js_mul val yi) (map Num xs) (map Num ys) 0 (Num 0)
         = Num (sum_list (map (\<lambda>(v, w). v * w) (zip xs ys)))"
proof -
  have "reduce_sum_idx (\<lambda>val yi. js_mul val yi) (map Num xs) (map Num ys) 0 (Num 0)
      = fold (\<lambda>(v, w) a. js_add a (js_mul v w)) (zip (map Num xs) (map Num ys)) (Num 0)"
    using assms by (simp add: reduce_sum_idx_zip)
  also have "\<dots> = fold (\<lambda>(v, w) a. js_add a (Num (v * w))) (zip xs ys) (Num 0)"
    by (simp add: zip_map_map fold_map comp_def case_prod_unfold)
  also have "\<dots> = Num (0 + sum_list (map (\<lambda>(v, w). v * w) (zip xs ys)))"
    using fold_add_Num[of "\<lambda>p. fst p * snd p" "zip xs ys" 0] by (simp add: case_prod_unfold)
  finally show ?thesis by simp
qed

subsection \<open>The in-place sort of the progress samples\<close>

lemma length_sort_by_date: "length (sort_by_date pd) = length pd"
  by (simp add: sort_by_date_def)

lemma sort_by_date_idem: "sort_by_date (sort_by_date pd) = sort_by_date pd"
  by (simp add: sort_by_date_def sort_key_id_if_sorted)

lemma sort_by_date_short: "length pd < 2 \<Longrightarrow> sort_by_date pd = pd"
  by (cases pd; cases "tl pd") (auto simp: sort_by_date_def)

lemma calculateAverageDailyProgress_array:
  "snd (calculateAverageDailyProgress pd) = (if length pd < 2 then pd else sort_by_date pd)"
  by (simp add: calculateAverageDailyProgress_def Let_def split: prod.splits)

lemma calculateConsistencyScore_array:
  "snd (calculateConsistencyScore pd) = (if length pd < 3 then pd else sort_by_date pd)"
  by (simp add: calculateConsistencyScore_def Let_def)

lemma calculateGoalMetrics_array: "snd (calculateGoalMetrics now g pd) = sort_by_date pd"
  using calculateAverageDailyProgress_array[of pd] calculateConsistencyScore_array[of pd]
    calculateConsistencyScore_array[of "sort_by_date pd"] sort_by_date_short[of pd]
  by (auto simp add: calculateGoalMetrics_def Let_def length_sort_by_date sort_by_date_idem
      split: prod.splits if_splits)

subsection \<open>Goal metrics\<close>

text \<open>The two parts of the result that \<open>calculateGoalMetrics\<close> computes first: the
  daily rate, from the samples when there are two or more and from the current value
  over the days elapsed otherwise, and the efficiency score from that rate.\<close>

lemma calculateGoalMetrics_rate:
  "averageDailyProgress (fst (calculateGoalMetrics now goal pd))
     = (if 1 < length pd then fst (calculateAverageDailyProgress pd)
        else js_div (currentValue goal)
               (js_div (js_sub (getTime now) (getTime (createdAt goal))) (Num ms_per_day)))"
  by (simp add: calculateGoalMetrics_def Let_def split: prod.splits)

lemma calculateGoalMetrics_efficiency:
  "efficiencyScore (fst (calculateGoalMetrics now goal pd))
     = Math_min (Num 100)
         (js_mul (js_div (averageDailyProgress (fst (calculateGoalMetrics now goal pd)))
                         (theoreticalRate goal)) (Num 100))"
  by (simp add: calculateGoalMetrics_def Let_def split: prod.splits)

text \<open>
  C6. Take a goal whose theoretical rate, the target value over the planned days from
  creation to deadline, is positive, any progress history and any clock reading. The
  actual daily rate is the one \<open>calculateGoalMetrics\<close> derives from them: with two or
  more samples the rate \<open>calculateAverageDailyProgress\<close> gives, otherwise the current
  value over the days elapsed since creation. The efficiency score returned is the
  minimum of 100 and that rate over the theoretical rate times 100, and the rate is
  returned as \<open>averageDailyProgress\<close>; when the actual rate is twice the theoretical
  rate the score is 100.
\<close>

theorem efficiency_score_capped:
  assumes "targetValue goal = Num T"
    and "planned = real_of_int (deadline goal - createdAt goal) / 86400000"
    and "0 < T / planned"
    and "actual = (if 1 < length pd then fst (calculateAverageDailyProgress pd)
                   else js_div (currentValue goal)
                          (js_div (js_sub (getTime now) (getTime (createdAt goal)))
                                  (Num ms_per_day)))"
  shows "efficiencyScore (fst (calculateGoalMetrics now goal pd))
           = Math_min (Num 100) (js_mul (js_div actual (Num (T / planned))) (Num 100))
         \<and> averageDailyProgress (fst (calculateGoalMetrics now goal pd)) = actual
         \<and> (actual = Num (2 * (T / planned))
              \<longrightarrow> efficiencyScore (fst (calculateGoalMetrics now goal pd)) = Num 100)"
proof -
  have p0: "planned \<noteq> 0" using assms(3) by auto
  have "js_div (js_sub (getTime (deadline goal)) (getTime (createdAt goal))) (Num ms_per_day)
          = Num planned"
    by (simp add: assms(2) js_sub_def getTime_def ms_per_day_def)
  then have tr: "theoreticalRate goal = Num (T / planned)"
    using p0 by (simp add: theoreticalRate_def assms(1))
  have a: "averageDailyProgress (fst (calculateGoalMetrics now goal pd)) = actual"
    unfolding assms(4) by (rule calculateGoalMetrics_rate)
  have e: "efficiencyScore (fst (calculateGoalMetrics now goal pd))
      = Math_min (Num 100) (js_mul (js_div actual (Num (T / planned))) (Num 100))"
    unfolding calculateGoalMetrics_efficiency a tr ..
  show ?thesis using assms(3) unfolding e a by (auto simp: Math_min_def)
qed

text \<open>Two instances: a goal of 100 in ten days with samples 0 and 20 a day apart, whose
  rate 20 is twice the theoretical 10; and the same goal with nothing done and no
  samples two days after creation, whose rate and score are 0.\<close>

theorem efficiency_score_capped_witness:
  "targetValue ten_day_goal = Num 100
   \<and> 0 < (100 :: real) / (real_of_int (deadline ten_day_goal - createdAt ten_day_goal) / 86400000)
   \<and> 1 < length fast_progress
   \<and> fst (calculateAverageDailyProgress fast_progress)
       = Num (2 * (100 / (real_of_int (deadline ten_day_goal - createdAt ten_day_goal) / 86400000)))
   \<and> averageDailyProgress (fst (calculateGoalMetrics 172800000 ten_day_goal fast_progress)) = Num 20
   \<and> efficiencyScore (fst (calculateGoalMetrics 172800000 ten_day_goal fast_progress)) = Num 100
   \<and> targetValue idle_goal = Num 100
   \<and> 0 < (100 :: real) / (real_of_int (deadline idle_goal - createdAt idle_goal) / 86400000)
   \<and> averageDailyProgress (fst (calculateGoalMetrics 172800000 idle_goal [])) = Num 0
   \<and> efficiencyScore (fst (calculateGoalMetrics 172800000 idle_goal [])) = Num 0"
proof -
  have r: "fst (calculateAverageDailyProgress fast_progress) = Num 20"
    by (simp add: fast_progress_def calculateAverageDailyProgress_def sort_by_date_def
        js_sub_def js_gt_def getTime_def ms_per_day_def Let_def)
  have l: "1 < length fast_progress" by (simp add: fast_progress_def)
  have t: "targetValue ten_day_goal = Num 100" by (simp add: ten_day_goal_def)
  have p: "real_of_int (deadline ten_day_goal - createdAt ten_day_goal) / 86400000 = 10"
    by (simp add: ten_day_goal_def)
  have pos: "0 < (100 :: real) / (real_of_int (deadline ten_day_goal - createdAt ten_day_goal) / 86400000)"
    unfolding p by simp
  have act: "Num 20 = (if 1 < length fast_progress then fst (calculateAverageDailyProgress fast_progress)
                   else js_div (currentValue ten_day_goal)
                          (js_div (js_sub (getTime 172800000) (getTime (createdAt ten_day_goal)))
                                  (Num ms_per_day)))"
    using l r by simp
  note fast = efficiency_score_capped[OF t refl pos act]
  have f1: "averageDailyProgress (fst (calculateGoalMetrics 172800000 ten_day_goal fast_progress)) = Num 20"
    using fast by simp
  have f2: "efficiencyScore (fst (calculateGoalMetrics 172800000 ten_day_goal fast_progress)) = Num 100"
    using fast unfolding p by (simp add: Math_min_def)
  have t': "targetValue idle_goal = Num 100" by (simp add: idle_goal_def)
  have p': "real_of_int (deadline idle_goal - createdAt idle_goal) / 86400000 = 10"
    by (simp add: idle_goal_def)
  have pos': "0 < (100 :: real) / (real_of_int (deadline idle_goal - createdAt idle_goal) / 86400000)"
    unfolding p' by simp
  have act': "Num 0 = (if 1 < length ([] :: GoalProgress list) then fst (calculateAverageDailyProgress [])
                   else js_div (currentValue idle_goal)
                          (js_div (js_sub (getTime 172800000) (getTime (createdAt idle_goal)))
                                  (Num ms_per_day)))"
    by (simp add: idle_goal_def js_sub_def getTime_def ms_per_day_def)
  note idle = efficiency_score_capped[OF t' refl pos' act']
  have i1: "averageDailyProgress (fst (calculateGoalMetrics 172800000 idle_goal [])) = Num 0"
    using idle by simp
  have i2: "efficiencyScore (fst (calculateGoalMetrics 172800000 idle_goal [])) = Num 0"
    using idle unfolding p' by (simp add: Math_min_def)
  have r': "fst (calculateAverageDailyProgress fast_progress)
       = Num (2 * (100 / (real_of_int (deadline ten_day_goal - createdAt ten_day_goal) / 86400000)))"
    unfolding p r by simp
  show ?thesis
    using l t pos r' f1 f2 t' pos' i1 i2 by blast
qed

text \<open>
  C8 (amended). With fewer than 3 samples \<open>calculateConsistencyScore\<close> returns 50. With
  3 or more it works on the changes between consecutive time-sorted samples, negative
  changes counted as 0: when their mean is greater than 0 the score is
  max(0, 100 - CV * 100) with CV the standard deviation over the mean, and when their
  mean is not greater than 0 the coefficient is taken as 1 and the score is 0.
\<close>

theorem consistency_score_guarded:
  "(length pd < 3 \<longrightarrow> fst (calculateConsistencyScore pd) = Num 50)
   \<and> (3 \<le> length pd \<and> js_gt (changes_mean (dailyChanges (sort_by_date pd))) (Num 0)
        \<longrightarrow> fst (calculateConsistencyScore pd) = consistency_spec pd)
   \<and> (3 \<le> length pd \<and> \<not> js_gt (changes_mean (dailyChanges (sort_by_date pd))) (Num 0)
        \<longrightarrow> fst (calculateConsistencyScore pd) = Num 0)"
  by (simp add: calculateConsistencyScore_def consistency_spec_def score_of_changes_def
      coefficient_of_variation_def changes_mean_def changes_stddev_def Let_def Math_max_def
      js_sub_def)

theorem consistency_score_guarded_witness:
  "length single_progress < 3 \<and> fst (calculateConsistencyScore single_progress) = Num 50
   \<and> 3 \<le> length steady_progress
   \<and> js_gt (changes_mean (dailyChanges (sort_by_date steady_progress))) (Num 0)
   \<and> fst (calculateConsistencyScore steady_progress) = consistency_spec steady_progress
   \<and> 3 \<le> length flat_progress
   \<and> \<not> js_gt (changes_mean (dailyChanges (sort_by_date flat_progress))) (Num 0)
   \<and> fst (calculateConsistencyScore flat_progress) = Num 0"
  using consistency_score_guarded[of single_progress] consistency_score_guarded[of steady_progress]
    consistency_score_guarded[of flat_progress]
  by (simp add: single_progress_def steady_progress_def flat_progress_def sort_by_date_def
      changes_mean_def reduce_sum_def Math_max_def js_sub_def js_gt_def)

text \<open>
  C8 as stated fails on three samples of equal value: the changes are 0 and 0, their
  mean is 0, the quotient of the standard deviation by the mean is 0/0, so the formula
  gives \<open>NaN\<close>, and the code returns 0.
\<close>

theorem consistency_score_counterexample:
  "3 \<le> length flat_progress \<and> fst (calculateConsistencyScore flat_progress) = Num 0
   \<and> consistency_spec flat_progress = NaN"
  by (simp add: flat_progress_def calculateConsistencyScore_def consistency_spec_def
      sort_by_date_def score_of_changes_def coefficient_of_variation_def changes_mean_def
      changes_stddev_def reduce_sum_def Math_max_def Math_pow2_def js_sub_def js_gt_def
      inf_of_sign_def)

subsection \<open>Pearson correlation\<close>

lemma js_mul_commute: "js_mul a b = js_mul b a"
  by (cases a; cases b) (simp_all add: mult.commute)

lemma sumXY_commute:
  assumes "length x = length y"
  shows "reduce_sum_idx (\<lambda>val yi. js_mul val yi) x y 0 acc
       = reduce_sum_idx (\<lambda>val yi. js_mul val yi) y x 0 acc"
proof -
  have sw: "(\<lambda>p a. js_add a (js_mul (snd p) (fst p))) = (\<lambda>p a. js_add a (js_mul (fst p) (snd p)))"
    by (intro ext) (simp only: js_mul_commute)
  have "reduce_sum_idx (\<lambda>val yi. js_mul val yi) y x 0 acc
      = fold (\<lambda>p a. js_add a (js_mul (fst p) (snd p))) (zip y x) acc"
    using assms by (simp only: reduce_sum_idx_zip case_prod_unfold add_0 order_refl drop_0)
  also have "zip y x = map (\<lambda>p. (snd p, fst p)) (zip x y)"
    by (simp only: zip_commute[of y x] case_prod_unfold)
  also have "fold (\<lambda>p a. js_add a (js_mul (fst p) (snd p))) (map (\<lambda>p. (snd p, fst p)) (zip x y)) acc
      = fold (\<lambda>p a. js_add a (js_mul (snd p) (fst p))) (zip x y) acc"
    by (simp only: fold_map comp_def fst_conv snd_conv)
  also have "\<dots> = fold (\<lambda>p a. js_add a (js_mul (fst p) (snd p))) (zip x y) acc"
    by (simp only: sw)
  also have "\<dots> = reduce_sum_idx (\<lambda>val yi. js_mul val yi) x y 0 acc"
    using assms by (simp only: reduce_sum_idx_zip case_prod_unfold add_0 order_refl drop_0)
  finally show ?thesis by simp
qed

lemma pearson_numerator_commute:
  "length x = length y \<Longrightarrow> pearson_numerator x y = pearson_numerator y x"
  by (simp add: pearson_numerator_def sumXY_commute js_mul_commute[of "reduce_sum (\<lambda>val. val) x"])

lemma pearson_denominator_commute:
  "length x = length y \<Longrightarrow> pearson_denominator x y = pearson_denominator y x"
  unfolding pearson_denominator_def Let_def
  by (subst js_mul_commute) simp

lemma pearson_r_commute: "length x = length y \<Longrightarrow> pearson_r x y = pearson_r y x"
  by (simp only: pearson_r_def pearson_numerator_commute pearson_denominator_commute)

text \<open>
  C4. On sequences of length below 3 \<open>pearsonCorrelation\<close> returns r = 0 and p = 1 (and
  the length as n); no path of it raises. Whenever the denominator of the
  product-moment formula is 0, the r it returns is 0.
\<close>

theorem pearson_insufficient_data:
  "(length x < 3 \<longrightarrow>
      pearsonCorrelation x y = \<lparr> pr_r = Num 0, pr_p = Num 1, pr_n = length x \<rparr>)
   \<and> (pearson_denominator x y = Num 0 \<longrightarrow> pr_r (pearsonCorrelation x y) = Num 0)"
  by (simp add: pearsonCorrelation_def pearson_r_def js_eq_def Let_def)

theorem pearson_insufficient_data_witness:
  "length [Num 1, Num 2] < 3
   \<and> pearsonCorrelation [Num 1, Num 2] [Num 3, Num 4] = \<lparr> pr_r = Num 0, pr_p = Num 1, pr_n = 2 \<rparr>
   \<and> pearson_denominator [Num 1, Num 1, Num 1] [Num 1, Num 2, Num 3] = Num 0
   \<and> pr_r (pearsonCorrelation [Num 1, Num 1, Num 1] [Num 1, Num 2, Num 3]) = Num 0"
  using pearson_insufficient_data[of "[Num 1, Num 2]" "[Num 3, Num 4]"]
    pearson_insufficient_data[of "[Num 1, Num 1, Num 1]" "[Num 1, Num 2, Num 3]"]
  by (simp add: pearson_denominator_def reduce_sum_def js_sub_def)

text \<open>
  C5. For sequences of equal length, \<open>pearsonCorrelation x y\<close> and
  \<open>pearsonCorrelation y x\<close> agree in r, p and n.
\<close>

theorem pearson_symmetric:
  assumes "length x = length y"
  shows "pearsonCorrelation x y = pearsonCorrelation y x"
proof -
  have r: "pearson_r x y = pearson_r y x" by (rule pearson_r_commute[OF assms])
  show ?thesis unfolding pearsonCorrelation_def r assms ..
qed

theorem pearson_symmetric_witness:
  "length [Num 1, Num 2, Num 3, Num 5] = length [Num 2, Num 4, Num 7, Num 8]
   \<and> pearsonCorrelation [Num 1, Num 2, Num 3, Num 5] [Num 2, Num 4, Num 7, Num 8]
       = pearsonCorrelation [Num 2, Num 4, Num 7, Num 8] [Num 1, Num 2, Num 3, Num 5]"
  using pearson_symmetric[of "[Num 1, Num 2, Num 3, Num 5]" "[Num 2, Num 4, Num 7, Num 8]"]
  by simp

subsection \<open>Trends\<close>








subsection \<open>The engine the constructor builds\<close>









subsection \<open>The caller's array and repeated calls\<close>

lemma analyzeGoalOptimization_array:
  "snd (analyzeGoalOptimization now clock g pd) = sort_by_date pd"
  by (simp add: analyzeGoalOptimization_def Let_def case_prod_unfold calculateGoalMetrics_array)

lemma new_MoodAnalytics_array: "snd (new_MoodAnalytics es) = sort_key e_date es"
  by (simp add: new_MoodAnalytics_def Let_def)

text \<open>
  C2. The claim is that no analysis operation reorders the array its caller passes.
  The code sorts that very array: on two samples (or two entries) given later-first,
  \<open>calculateGoalMetrics\<close>, \<open>analyzeGoalOptimization\<close> and the \<open>MoodAnalytics\<close>
  constructor each leave the caller's array reversed.
\<close>

theorem analysis_sorts_caller_array:
  "snd (calculateGoalMetrics 172800000 ten_day_goal late_first_progress) = rev late_first_progress
   \<and> snd (analyzeGoalOptimization 172800000 ticking_clock ten_day_goal late_first_progress)
        = rev late_first_progress
   \<and> snd (new_MoodAnalytics late_first_entries) = rev late_first_entries
   \<and> rev late_first_progress \<noteq> late_first_progress
   \<and> rev late_first_entries \<noteq> late_first_entries"
  by (simp add: calculateGoalMetrics_array analyzeGoalOptimization_array new_MoodAnalytics_array
      sort_by_date_def late_first_progress_def late_first_entries_def entry_on_def)




subsection \<open>Regression on a constant series\<close>

text \<open>The slope over exact arithmetic, for finite numbers.\<close>

lemma slope_Num:
  assumes "length xs = length ys"
  shows "slope (linearRegression (map Num xs) (map Num ys))
    = js_div (Num (real (length xs) * sum_list (map (\<lambda>(v, w). v * w) (zip xs ys)) - sum_list xs * sum_list ys))
             (Num (real (length xs) * sum_list (map (\<lambda>v. v * v) xs) - sum_list xs * sum_list xs))"
  using assms
  by (simp add: linearRegression_def Let_def reduce_sum_id_Num reduce_sum_sq_Num sumXY_Num js_sub_def)

lemma zero_or_NaN_add:
  "a = Num 0 \<or> a = NaN \<Longrightarrow> b = Num 0 \<or> b = NaN \<Longrightarrow> js_add a b = Num 0 \<or> js_add a b = NaN"
  by auto

lemma reduce_sum_idx_zero_or_NaN:
  assumes "\<And>val w. val \<in> set xs \<Longrightarrow> g val w = Num 0 \<or> g val w = NaN"
    and "acc = Num 0 \<or> acc = NaN"
  shows "reduce_sum_idx g xs ys i acc = Num 0 \<or> reduce_sum_idx g xs ys i acc = NaN"
  using assms
proof (induction xs arbitrary: i acc)
  case Nil
  then show ?case by simp
next
  case (Cons x xs)
  have "js_add acc (g x (js_nth ys i)) = Num 0 \<or> js_add acc (g x (js_nth ys i)) = NaN"
    by (rule zero_or_NaN_add[OF Cons.prems(2)]) (simp add: Cons.prems(1))
  then show ?case using Cons.IH Cons.prems(1) by simp
qed

lemma reduce_sum_zero:
  assumes "\<And>v. v \<in> set xs \<Longrightarrow> f v = Num 0"
  shows "reduce_sum f xs = Num 0"
proof -
  have "fold (\<lambda>val acc. js_add acc (f val)) xs (Num 0) = Num 0"
    using assms by (induction xs) simp_all
  then show ?thesis by (simp add: reduce_sum_def)
qed

lemma sum_list_zip_replicate:
  "sum_list (map (\<lambda>(v, w). v * w) (zip xs (replicate (length xs) (c :: real)))) = c * sum_list xs"
  by (induction xs) (simp_all add: algebra_simps)

lemma r2_unfold:
  "r2 (linearRegression x y)
    = js_sub (Num 1)
        (js_div (reduce_sum_idx (\<lambda>val xi. Math_pow2 (js_sub val (js_add (js_mul (slope (linearRegression x y)) xi) (intercept (linearRegression x y))))) y x 0 (Num 0))
                (reduce_sum (\<lambda>val. Math_pow2 (js_sub val (js_div (reduce_sum (\<lambda>val. val) y) (Num (of_nat (length x)))))) y))"
  by (simp add: linearRegression_def Let_def)

lemma intercept_unfold:
  "intercept (linearRegression x y)
    = js_div (js_sub (reduce_sum (\<lambda>val. val) y) (js_mul (slope (linearRegression x y)) (reduce_sum (\<lambda>val. val) x)))
             (Num (of_nat (length x)))"
  by (simp add: linearRegression_def Let_def)

text \<open>Over exact arithmetic, on every finite x and every constant y of the same length,
  R-squared is \<open>NaN\<close>.\<close>

lemma regression_constant_y_always_NaN:
  fixes xs :: "real list"
  shows "r2 (linearRegression (map Num xs) (replicate (length xs) (Num c))) = NaN"
proof (cases "xs = []")
  case True
  then show ?thesis
    by (simp add: linearRegression_def reduce_sum_def js_sub_def inf_of_sign_def)
next
  case False
  let ?n = "real (length xs)"
  let ?x = "map Num xs"
  let ?y = "replicate (length xs) (Num c)"
  let ?reg = "linearRegression ?x ?y"
  have n: "?n \<noteq> 0" using False by simp
  have y: "?y = map Num (replicate (length xs) c)" by simp
  have sumY: "reduce_sum (\<lambda>val. val) ?y = Num (?n * c)"
    unfolding y reduce_sum_id_Num by (simp add: sum_list_replicate)
  have "slope ?reg = js_div (Num 0)
       (Num (?n * sum_list (map (\<lambda>v. v * v) xs) - sum_list xs * sum_list xs))"
    unfolding y by (subst slope_Num) (simp_all add: sum_list_zip_replicate sum_list_replicate)
  then have sl: "slope ?reg = Num 0 \<or> slope ?reg = NaN"
    by (simp add: inf_of_sign_def)
  have tot: "reduce_sum (\<lambda>val. Math_pow2 (js_sub val (js_div (reduce_sum (\<lambda>val. val) ?y) (Num (of_nat (length ?x)))))) ?y = Num 0"
    by (rule reduce_sum_zero) (use n in \<open>simp add: sumY Math_pow2_def js_sub_def\<close>)
  have res: "reduce_sum_idx (\<lambda>val xi. Math_pow2 (js_sub val (js_add (js_mul (slope ?reg) xi) (intercept ?reg)))) ?y ?x 0 (Num 0) = Num 0
      \<or> reduce_sum_idx (\<lambda>val xi. Math_pow2 (js_sub val (js_add (js_mul (slope ?reg) xi) (intercept ?reg)))) ?y ?x 0 (Num 0) = NaN"
  proof (rule reduce_sum_idx_zero_or_NaN)
    fix val w
    assume "val \<in> set ?y"
    then have val: "val = Num c" by simp
    from sl show "Math_pow2 (js_sub val (js_add (js_mul (slope ?reg) w) (intercept ?reg))) = Num 0
        \<or> Math_pow2 (js_sub val (js_add (js_mul (slope ?reg) w) (intercept ?reg))) = NaN"
    proof
      assume s0: "slope ?reg = Num 0"
      have "intercept ?reg = Num c"
        unfolding intercept_unfold s0 sumY reduce_sum_id_Num using n by (simp add: js_sub_def)
      then show ?thesis unfolding s0 val
        by (cases w) (simp_all add: Math_pow2_def js_sub_def inf_of_sign_def)
    next
      assume "slope ?reg = NaN"
      then show ?thesis unfolding val by (simp add: Math_pow2_def js_sub_def)
    qed
  qed simp
  show ?thesis
    unfolding r2_unfold tot using res by (auto simp add: js_sub_def inf_of_sign_def)
qed

text \<open>
  C1. The claim is that \<open>linearRegression\<close> on distinct x and a constant y returns slope
  0 and R-squared 0. On x = [0, 1, 2, 3] and y = [5, 5, 5, 5] the code returns slope 0
  and intercept 5, but both sums of squares are 0 and the unguarded quotient 0/0 makes
  R-squared \<open>NaN\<close>.
\<close>

theorem regression_constant_y:
  "linearRegression [Num 0, Num 1, Num 2, Num 3] [Num 5, Num 5, Num 5, Num 5]
     = \<lparr> slope = Num 0, intercept = Num 5, r2 = NaN \<rparr>"
  by (simp add: linearRegression_def reduce_sum_def js_sub_def Math_pow2_def inf_of_sign_def
      js_nth_def Let_def)

subsection \<open>The bound on the correlation coefficient\<close>

text \<open>The sum of the squares of a linear form over the pairs, expanded; it gives the
  Cauchy-Schwarz inequality for the centred sums.\<close>

lemma sum_list_linear_form_sq:
  fixes p q r :: real
  shows "sum_list (map (\<lambda>(x, y). (p * x + q * y + r)\<^sup>2) zs)
    = p\<^sup>2 * sum_list (map (\<lambda>(x, y). x * x) zs) + q\<^sup>2 * sum_list (map (\<lambda>(x, y). y * y) zs)
      + 2 * p * q * sum_list (map (\<lambda>(x, y). x * y) zs)
      + 2 * p * r * sum_list (map fst zs) + 2 * q * r * sum_list (map snd zs)
      + r\<^sup>2 * real (length zs)"
  by (induction zs) (auto simp add: power2_eq_square algebra_simps)

lemma sum_list_sq_nonneg: "0 \<le> sum_list (map (\<lambda>(x, y). (p * x + q * y + r)\<^sup>2) (zs :: (real \<times> real) list))"
  by (rule sum_list_nonneg) auto

lemma zip_sums:
  assumes "length xs = length ys"
  shows "sum_list (map (\<lambda>(x, y). x * x) (zip xs ys)) = sum_list (map (\<lambda>v. v * v) xs)"
    and "sum_list (map (\<lambda>(x, y). y * y) (zip xs ys)) = sum_list (map (\<lambda>v. v * v) ys)"
    and "sum_list (map fst (zip xs ys)) = sum_list (xs :: real list)"
    and "sum_list (map snd (zip xs ys)) = sum_list (ys :: real list)"
  using assms by (induction xs ys rule: list_induct2) simp_all

lemma quadratic_form_nonneg:
  fixes xs ys :: "real list"
  assumes "length xs = length ys"
  defines "n \<equiv> real (length xs)"
  defines "A \<equiv> n * sum_list (map (\<lambda>v. v * v) xs) - sum_list xs * sum_list xs"
  defines "B \<equiv> n * sum_list (map (\<lambda>v. v * v) ys) - sum_list ys * sum_list ys"
  defines "C \<equiv> n * sum_list (map (\<lambda>(v, w). v * w) (zip xs ys)) - sum_list xs * sum_list ys"
  shows "0 \<le> s\<^sup>2 * A + t\<^sup>2 * B + 2 * s * t * C"
proof (cases "length xs = 0")
  case True
  then show ?thesis using assms by (simp add: A_def B_def C_def n_def)
next
  case False
  then have n: "0 < n" by (simp add: n_def)
  have "n * (s\<^sup>2 * A + t\<^sup>2 * B + 2 * s * t * C)
      = sum_list (map (\<lambda>(x, y). ((s * n) * x + (t * n) * y + (- (s * sum_list xs + t * sum_list ys)))\<^sup>2) (zip xs ys))"
    unfolding sum_list_linear_form_sq zip_sums[OF assms(1)]
    using assms(1) by (simp add: A_def B_def C_def n_def power2_eq_square algebra_simps)
  also have "\<dots> \<ge> 0" by (rule sum_list_sq_nonneg)
  finally have "0 \<le> n * (s\<^sup>2 * A + t\<^sup>2 * B + 2 * s * t * C)" .
  with n show ?thesis by (simp add: zero_le_mult_iff)
qed

lemma cauchy_schwarz_from_form:
  fixes A B C :: real
  assumes q: "\<And>s t. 0 \<le> s\<^sup>2 * A + t\<^sup>2 * B + 2 * s * t * C"
  shows "0 \<le> A" and "0 \<le> B" and "C\<^sup>2 \<le> A * B"
proof -
  show A: "0 \<le> A" using q[of 1 0] by simp
  show B: "0 \<le> B" using q[of 0 1] by simp
  show "C\<^sup>2 \<le> A * B"
  proof (cases "B = 0")
    case True
    have "C = 0"
    proof (rule ccontr)
      assume c: "C \<noteq> 0"
      have "0 \<le> A + 2 * (- (A + 1) / (2 * C)) * C"
        using q[of 1 "- (A + 1) / (2 * C)"] True by simp
      also have "\<dots> = - 1" using c by (simp add: field_simps)
      finally show False by simp
    qed
    with True show ?thesis by simp
  next
    case False
    with B have b: "0 < B" by simp
    have "0 \<le> B\<^sup>2 * A + (- C)\<^sup>2 * B + 2 * B * (- C) * C" by (rule q)
    also have "\<dots> = B * (A * B - C\<^sup>2)" by (simp add: power2_eq_square algebra_simps)
    finally have "0 \<le> A * B - C\<^sup>2" using b by (simp add: zero_le_mult_iff)
    then show ?thesis by simp
  qed
qed


lemma pearson_numerator_Num:
  "length xs = length ys \<Longrightarrow>
   pearson_numerator (map Num xs) (map Num ys)
     = Num (real (length xs) * sum_list (map (\<lambda>(v, w). v * w) (zip xs ys)) - sum_list xs * sum_list ys)"
  by (simp add: pearson_numerator_def reduce_sum_id_Num sumXY_Num js_sub_def)

lemma pearson_denominator_Num:
  "pearson_denominator (map Num xs) (map Num ys)
     = Math_sqrt (Num ((real (length xs) * sum_list (map (\<lambda>v. v * v) xs) - sum_list xs * sum_list xs)
                     * (real (length xs) * sum_list (map (\<lambda>v. v * v) ys) - sum_list ys * sum_list ys)))"
  by (simp add: pearson_denominator_def reduce_sum_id_Num reduce_sum_sq_Num js_sub_def)

lemma pearson_r_Num:
  fixes xs ys :: "real list"
  assumes "length xs = length ys"
  shows "\<exists>r. pearson_r (map Num xs) (map Num ys) = Num r \<and> - 1 \<le> r \<and> r \<le> 1"
proof -
  define n where "n = real (length xs)"
  define A where "A = n * sum_list (map (\<lambda>v. v * v) xs) - sum_list xs * sum_list xs"
  define B where "B = real (length xs) * sum_list (map (\<lambda>v. v * v) ys) - sum_list ys * sum_list ys"
  define C where "C = n * sum_list (map (\<lambda>(v, w). v * w) (zip xs ys)) - sum_list xs * sum_list ys"
  have q: "\<And>s t. 0 \<le> s\<^sup>2 * A + t\<^sup>2 * B + 2 * s * t * C"
    unfolding A_def B_def C_def n_def by (rule quadratic_form_nonneg[OF assms])
  note cs = cauchy_schwarz_from_form[of A B C, OF q]
  have ab: "0 \<le> A * B" using cs(1,2) by simp
  have num: "pearson_numerator (map Num xs) (map Num ys) = Num C"
    using assms by (simp add: pearson_numerator_Num C_def n_def)
  have den: "pearson_denominator (map Num xs) (map Num ys) = Num (sqrt (A * B))"
    using ab by (simp add: pearson_denominator_Num A_def B_def n_def)
  show ?thesis
  proof (cases "sqrt (A * B) = 0")
    case True
    then show ?thesis by (simp add: pearson_r_def num den js_eq_def)
  next
    case False
    then have "A * B \<noteq> 0" by simp
    with ab have "0 < A * B" by linarith
    then have pos: "0 < sqrt (A * B)" by simp
    have "\<bar>C\<bar> = sqrt (C\<^sup>2)" by simp
    also have "\<dots> \<le> sqrt (A * B)" using cs(3) by (rule real_sqrt_le_mono)
    finally have "\<bar>C / sqrt (A * B)\<bar> \<le> 1" using pos by simp
    moreover have "\<bar>z\<bar> \<le> 1 \<Longrightarrow> - 1 \<le> z \<and> z \<le> 1" for z :: real by linarith
    ultimately have "- 1 \<le> C / sqrt (A * B) \<and> C / sqrt (A * B) \<le> 1" by blast
    moreover have "pearson_r (map Num xs) (map Num ys) = Num (C / sqrt (A * B))"
      using False by (simp add: pearson_r_def num den js_eq_def)
    ultimately show ?thesis by blast
  qed
qed

text \<open>
  C3. For finite sequences x and y of equal length n, n at least 3, for which
  (n * sum of x squared - (sum of x) squared) * (n * sum of y squared - (sum of y)
  squared) is not 0, the coefficient r that \<open>pearsonCorrelation\<close> returns is a finite
  number between -1 and 1, over exact arithmetic.
\<close>

theorem pearson_r_bounded:
  fixes xs ys :: "real list"
  assumes "length xs = length ys" and "3 \<le> length xs"
    and "(real (length xs) * sum_list (map (\<lambda>v. v * v) xs) - (sum_list xs)\<^sup>2)
         * (real (length xs) * sum_list (map (\<lambda>v. v * v) ys) - (sum_list ys)\<^sup>2) \<noteq> 0"
  shows "\<exists>r. pr_r (pearsonCorrelation (map Num xs) (map Num ys)) = Num r \<and> - 1 \<le> r \<and> r \<le> 1"
  using pearson_r_Num[OF assms(1)] assms(2) by (simp add: pearsonCorrelation_def Let_def)

theorem pearson_r_bounded_witness:
  "length [1, 2, 3 :: real] = length [2, 4, 7 :: real] \<and> 3 \<le> length [1, 2, 3 :: real]
   \<and> (real (length [1, 2, 3 :: real]) * sum_list (map (\<lambda>v. v * v) [1, 2, 3 :: real]) - (sum_list [1, 2, 3 :: real])\<^sup>2)
         * (real (length [1, 2, 3 :: real]) * sum_list (map (\<lambda>v. v * v) [2, 4, 7 :: real]) - (sum_list [2, 4, 7 :: real])\<^sup>2) \<noteq> 0
   \<and> (\<exists>r. pr_r (pearsonCorrelation (map Num [1, 2, 3]) (map Num [2, 4, 7])) = Num r \<and> - 1 \<le> r \<and> r \<le> 1)"
  using pearson_r_bounded[of "[1, 2, 3]" "[2, 4, 7]"] by simp

subsection \<open>Weekly patterns\<close>






















end
